theory Spec2Isabelle
  imports Main "HOL-Library.AList"
begin

section \<open>The event handler of web/containers/Providers/EventHandler.tsx\<close>

text \<open>
  The component registers five handlers on the event bus. Each handler reads the mirrored
  snapshots (\<open>threadsRef\<close>, \<open>messagesRef\<close>, \<open>activeModelRef\<close>), writes jotai atoms through
  their setters and calls collaborators (the conversational extension, the toaster, the
  event bus through a timer). The model passes the atoms and the log of collaborator calls
  explicitly: a handler is a function from the world before the event to the world after it.
\<close>

subsection \<open>Data model\<close>

text \<open>
  The types come from \<open>@janhq/core\<close>, which the file imports; they are written down here
  with the fields the handlers touch, as section 3 of the specification lists them.
  JavaScript strings are modelled as \<open>string\<close>; JavaScript objects used as open mappings
  (\<open>metadata\<close>, \<open>parameters\<close>) as association lists, whose \<open>AList.update\<close> is the object
  spread with one overriding key (an existing key keeps its place, a new one goes last).
\<close>

datatype MessageStatus = Ready | Pending | Error

datatype MessageRequestType = Thread | Summary

datatype ChatCompletionRole = System | Assistant | User

datatype ContentType = Text | Image | Pdf

record ContentValue =
  value_cv :: string
  annotations :: "string list"

record ThreadContent =
  type_content :: ContentType
  text_content :: ContentValue

record ThreadMessage =
  id_message :: string
  thread_id :: string
  role :: ChatCompletionRole
  status :: MessageStatus
  content :: "ThreadContent list"
  type_message :: MessageRequestType

record Thread =
  id_thread :: string
  title :: string
  metadata :: "(string \<times> string) list"

datatype ParamValue = PBool bool | PNum int | PStr string

record Model =
  id_model :: string
  name_model :: string
  parameters :: "(string \<times> ParamValue) list"

record ChatCompletionMessage =
  role_cc :: ChatCompletionRole
  content_cc :: "string option"

record MessageRequest =
  id_request :: string
  threadId :: string
  type_request :: MessageRequestType
  messages :: "ChatCompletionMessage list"
  model_request :: Model

record ModelState =
  state :: string
  loading :: bool
  model :: string

text \<open>The payload of \<open>ModelEvent.OnModelFail\<close>, \<open>res.error\<close> already rendered as text.\<close>

record ModelFail =
  error :: string
  modelId :: string

text \<open>
  Calls that leave the component. \<open>SaveThread\<close> and \<open>AddNewMessage\<close> are the calls
  \<open>extensionManager.get(Conversational)?.saveThread(..)\<close> and \<open>?.addNewMessage(..)\<close>;
  \<open>SetTimeout cb ms\<close> is \<open>setTimeout(cb, ms)\<close> with the two callbacks the file has.
\<close>

datatype Callback = EmitOnMessageSent MessageRequest | ClearActiveModel

datatype Effect =
    SaveThread Thread
  | AddNewMessage ThreadMessage
  | Toaster string string string
  | ConsoleError string
  | SetTimeout Callback nat

text \<open>
  The cells of the State Store (specification, sections 2 and 6) and the log of outbound
  calls in call order. The message lists are kept per thread id; the current thread's list
  is the one of \<open>activeThreadId\<close>.
\<close>

record World =
  activeModel :: "Model option"
  stateModel :: ModelState
  loadModelError :: "string option"
  queuedMessage :: bool
  threads :: "Thread list"
  chatMessages :: "string \<Rightarrow> ThreadMessage list"
  activeThreadId :: "string option"
  waitingForResponse :: "string \<Rightarrow> bool"
  isGeneratingResponse :: bool
  effects :: "Effect list"

text \<open>The \<open>useRef\<close> mirrors a handler reads (lines 58--80).\<close>

record Refs =
  threadsRef :: "Thread list"
  messagesRef :: "ThreadMessage list"
  activeModelRef :: "Model option"

subsection \<open>State Store accessors\<close>

text \<open>
  The atoms of \<open>@/helpers/atoms\<close> and \<open>@/hooks\<close> are imported by the file but are not part
  of it. Their setters are modelled from the State Store accessor contract of the
  specification (section 6), with a message or thread id that is not found being a silent
  no-op (section 7).
\<close>

text \<open>Modelled from the spec: "get/set active model"; the setter of \<open>activeModelAtom\<close>.\<close>

definition setActiveModel :: "Model option \<Rightarrow> World \<Rightarrow> World" where
  "setActiveModel m w = w\<lparr>activeModel := m\<rparr>"

text \<open>Modelled from the spec: "get/set model load status"; the setter of \<open>stateModelAtom\<close>.\<close>

definition setStateModel :: "ModelState \<Rightarrow> World \<Rightarrow> World" where
  "setStateModel st w = w\<lparr>stateModel := st\<rparr>"

text \<open>Modelled from the spec: "get/set load-error text"; the setter of \<open>loadModelErrorAtom\<close>.\<close>

definition setLoadModelError :: "string \<Rightarrow> World \<Rightarrow> World" where
  "setLoadModelError e w = w\<lparr>loadModelError := Some e\<rparr>"

text \<open>Modelled from the spec: "get/set queued-message flag"; the setter of \<open>queuedMessageAtom\<close>.\<close>

definition setQueuedMessage :: "bool \<Rightarrow> World \<Rightarrow> World" where
  "setQueuedMessage b w = w\<lparr>queuedMessage := b\<rparr>"

text \<open>Modelled from the spec: "get/set per-thread waiting flag";
  the setter of \<open>updateThreadWaitingForResponseAtom\<close>.\<close>

definition updateThreadWaiting :: "string \<Rightarrow> bool \<Rightarrow> World \<Rightarrow> World" where
  "updateThreadWaiting tid b w = w\<lparr>waitingForResponse := (waitingForResponse w)(tid := b)\<rparr>"

text \<open>Modelled from the spec: "get/set global generating flag";
  the setter of \<open>isGeneratingResponseAtom\<close>.\<close>

definition setIsGeneratingResponse :: "bool \<Rightarrow> World \<Rightarrow> World" where
  "setIsGeneratingResponse b w = w\<lparr>isGeneratingResponse := b\<rparr>"

text \<open>Modelled from the spec: "append it to the message list of its thread" (section 4.2);
  the setter of \<open>addNewMessageAtom\<close>.\<close>

definition addNewMessage :: "ThreadMessage \<Rightarrow> World \<Rightarrow> World" where
  "addNewMessage m w =
     w\<lparr>chatMessages := (chatMessages w)(thread_id m := chatMessages w (thread_id m) @ [m])\<rparr>"

text \<open>Modelled from the spec: "update message by (id, thread id) with new content/status";
  the setter of \<open>updateMessageAtom\<close>.\<close>

definition updateMessage ::
  "string \<Rightarrow> string \<Rightarrow> ThreadContent list \<Rightarrow> MessageStatus \<Rightarrow> World \<Rightarrow> World" where
  "updateMessage mid tid c st w =
     w\<lparr>chatMessages := (chatMessages w)(tid :=
          map (\<lambda>m. if id_message m = mid then m\<lparr>content := c, status := st\<rparr> else m)
              (chatMessages w tid))\<rparr>"

text \<open>Modelled from the spec: "update thread record"; the setter of \<open>updateThreadAtom\<close>,
  which replaces the record stored under the thread's id.\<close>

definition updateThread :: "Thread \<Rightarrow> World \<Rightarrow> World" where
  "updateThread t w =
     w\<lparr>threads := map (\<lambda>c. if id_thread c = id_thread t then t else c) (threads w)\<rparr>"

text \<open>
  Modelled from the spec: \<open>getCurrentChatMessagesAtom\<close>, "the current thread's message
  list" (section 4.1), is the message list of the active thread.
\<close>

definition getCurrentChatMessages :: "World \<Rightarrow> ThreadMessage list" where
  "getCurrentChatMessages w =
     (case activeThreadId w of None \<Rightarrow> [] | Some t \<Rightarrow> chatMessages w t)"

text \<open>The three \<open>useEffect\<close> mirrors of lines 66--80, run after a render.\<close>

definition mirror :: "World \<Rightarrow> Refs" where
  "mirror w = \<lparr>threadsRef = threads w, messagesRef = getCurrentChatMessages w,
               activeModelRef = activeModel w\<rparr>"

subsection \<open>Collaborator calls\<close>

definition call :: "Effect \<Rightarrow> World \<Rightarrow> World" where
  "call e w = w\<lparr>effects := effects w @ [e]\<rparr>"

subsection \<open>JavaScript helpers\<close>

text \<open>
  \<open>String.prototype.trim\<close> removes white space and line terminators from both ends.
  Of these, the code units below 256 are TAB, LF, VT, FF, CR, SP and NBSP.
\<close>

definition isWhiteSpace :: "char \<Rightarrow> bool" where
  "isWhiteSpace c \<longleftrightarrow>
     c \<in> set [CHR 0x09, CHR 0x0A, CHR 0x0B, CHR 0x0C, CHR 0x0D, CHR 0x20, CHR 0xA0]"

definition trim :: "string \<Rightarrow> string" where
  "trim s = rev (dropWhile isWhiteSpace (rev (dropWhile isWhiteSpace s)))"

text \<open>
  \<open>content[0]?.text?.value\<close>: \<open>undefined\<close> (\<open>None\<close>) when the message has no content part.
  \<open>ThreadContent.text\<close> is a required field of the core type, so a content part always
  has its text.
\<close>

definition firstTextValue :: "ThreadContent list \<Rightarrow> string option" where
  "firstTextValue c = (case c of [] \<Rightarrow> None | p # _ \<Rightarrow> Some (value_cv (text_content p)))"

text \<open>
  \<open>{...metadata, ...(messageContent && { lastMessage: messageContent })}\<close>: spreading
  \<open>undefined\<close> or the empty string adds nothing.
\<close>

definition spreadLastMessage :: "string option \<Rightarrow> (string \<times> string) list \<Rightarrow> (string \<times> string) list" where
  "spreadLastMessage messageContent md =
     (case messageContent of
        None \<Rightarrow> md
      | Some mc \<Rightarrow> if mc \<noteq> [] then AList.update ''lastMessage'' mc md else md)"

text \<open>\<open>threadsRef.current?.find((e) => e.id == message.thread_id)\<close>\<close>

definition findThread :: "Thread list \<Rightarrow> string \<Rightarrow> Thread option" where
  "findThread ts tid = find (\<lambda>e. id_thread e = tid) ts"

subsection \<open>Handlers\<close>

definition onNewMessageResponse :: "ThreadMessage \<Rightarrow> World \<Rightarrow> World" where
  "onNewMessageResponse message w =
     (if type_message message = Thread then addNewMessage message w else w)"

definition onModelReady :: "Model \<Rightarrow> World \<Rightarrow> World" where
  "onModelReady m w =
     setStateModel \<lparr>state = ''stop'', loading = False, model = id_model m\<rparr>
       (call (Toaster ''Success!'' (''Model '' @ id_model m @ '' has been started.'') ''success'')
         (setActiveModel (Some m) w))"

definition onModelStopped :: "World \<Rightarrow> World" where
  "onModelStopped w = call (SetTimeout ClearActiveModel 500) w"

definition onModelInitFailed :: "ModelFail \<Rightarrow> World \<Rightarrow> World" where
  "onModelInitFailed res w =
     (let errorMessage = error res in
      setQueuedMessage False
        (setLoadModelError errorMessage
          (setStateModel \<lparr>state = ''start'', loading = False, model = modelId res\<rparr>
            (call (ConsoleError (''Failed to load model: '' @ errorMessage)) w))))"

definition updateThreadTitle :: "Refs \<Rightarrow> ThreadMessage \<Rightarrow> World \<Rightarrow> World" where
  "updateThreadTitle r message w =
     (if status message = Pending then w
      else
        (case findThread (threadsRef r) (thread_id message) of
           None \<Rightarrow> w
         | Some thread \<Rightarrow>
             (case firstTextValue (content message) of
                None \<Rightarrow> w
              | Some messageContent \<Rightarrow>
                  if messageContent \<noteq> [] then
                    call (SaveThread thread)
                      (updateThread (thread\<lparr>title := messageContent, metadata := metadata thread\<rparr>) w)
                  else w)))"

definition summarizeFirstPrompt :: string where
  "summarizeFirstPrompt = ''Summarize the conversation above in 5 words as a title''"

text \<open>
  \<open>msgId\<close> is the value \<open>ulid()\<close> returns in this call. \<open>Thread.title\<close> is a string in the
  core type, so \<open>thread.title?.trim()\<close> is the trimmed title; the handler calls the function
  with a thread it has found, so the test \<open>thread &&\<close> holds.
\<close>

definition generateThreadTitle :: "Refs \<Rightarrow> string \<Rightarrow> ThreadMessage \<Rightarrow> Thread \<Rightarrow> World \<Rightarrow> World" where
  "generateThreadTitle r msgId message thread w =
     (if trim (title thread) = ''New Thread'' then
        (case activeModelRef r of
           None \<Rightarrow> w
         | Some am \<Rightarrow>
             (let threadMessages = messagesRef r;
                  msgs = map (\<lambda>msg. \<lparr>role_cc = role msg,
                                      content_cc = firstTextValue (content msg)\<rparr>) threadMessages
                         @ [\<lparr>role_cc = User, content_cc = Some summarizeFirstPrompt\<rparr>];
                  firstPromptRequest =
                    \<lparr>id_request = msgId, threadId = thread_id message, type_request = Summary,
                     messages = msgs,
                     model_request = am\<lparr>parameters := [(''stream'', PBool False)]\<rparr>\<rparr>
              in call (SetTimeout (EmitOnMessageSent firstPromptRequest) 1000) w))
      else w)"

definition updateThreadMessage :: "Refs \<Rightarrow> string \<Rightarrow> ThreadMessage \<Rightarrow> World \<Rightarrow> World" where
  "updateThreadMessage r msgId message w =
     (let w1 = updateMessage (id_message message) (thread_id message) (content message)
                 (status message) w
      in if status message = Pending then
           (if content message \<noteq> [] then
              setIsGeneratingResponse False (updateThreadWaiting (thread_id message) False w1)
            else w1)
         else
           (let w2 = setIsGeneratingResponse False
                       (updateThreadWaiting (thread_id message) False w1)
            in case findThread (threadsRef r) (thread_id message) of
                 None \<Rightarrow> w2
               | Some thread \<Rightarrow>
                   (let messageContent = firstTextValue (content message);
                        md = spreadLastMessage messageContent (metadata thread)
                    in generateThreadTitle r msgId message thread
                         (call (AddNewMessage message)
                           (call (SaveThread (thread\<lparr>metadata := md\<rparr>))
                             (updateThread (thread\<lparr>metadata := md\<rparr>) w2))))))"

definition onMessageResponseUpdate :: "Refs \<Rightarrow> string \<Rightarrow> ThreadMessage \<Rightarrow> World \<Rightarrow> World" where
  "onMessageResponseUpdate r msgId message w =
     (case type_message message of
        Summary \<Rightarrow> updateThreadTitle r message w
      | _ \<Rightarrow> updateThreadMessage r msgId message w)"

text \<open>The callback of a timer, run when the timer fires.\<close>

datatype Emitted = OnMessageSent MessageRequest

fun fire :: "Callback \<Rightarrow> World \<Rightarrow> World \<times> Emitted list" where
  "fire (EmitOnMessageSent rq) w = (w, [OnMessageSent rq])"
| "fire ClearActiveModel w =
     (setStateModel \<lparr>state = ''start'', loading = False, model = ''''\<rparr> (setActiveModel None w), [])"

subsection \<open>Observations\<close>

text \<open>The requests whose \<open>message-send-requested\<close> emission a list of calls has scheduled.\<close>

fun sentRequests :: "Effect list \<Rightarrow> MessageRequest list" where
  "sentRequests [] = []"
| "sentRequests (SetTimeout (EmitOnMessageSent rq) d # es) = rq # sentRequests es"
| "sentRequests (e # es) = sentRequests es"

text \<open>The threads handed to \<open>saveThread\<close>.\<close>

fun savedThreads :: "Effect list \<Rightarrow> Thread list" where
  "savedThreads [] = []"
| "savedThreads (SaveThread t # es) = t # savedThreads es"
| "savedThreads (e # es) = savedThreads es"

text \<open>The title of the thread stored under an id.\<close>

definition titleOf :: "World \<Rightarrow> string \<Rightarrow> string option" where
  "titleOf w tid = map_option title (findThread (threads w) tid)"

text \<open>
  Feeding a sequence of \<open>message-response-updated\<close> events, each with the snapshots and the
  \<open>ulid()\<close> value its handler sees; the result lists the world after each event.
\<close>

fun feed :: "(Refs \<times> string \<times> ThreadMessage) list \<Rightarrow> World \<Rightarrow> World list" where
  "feed [] w = []"
| "feed ((r, u, m) # es) w = onMessageResponseUpdate r u m w # feed es (onMessageResponseUpdate r u m w)"

text \<open>The number of steps of a flag's history at which it goes from true to false.\<close>

fun transitionsToFalse :: "bool list \<Rightarrow> nat" where
  "transitionsToFalse (a # b # bs) =
     (if a \<and> \<not> b then 1 else 0) + transitionsToFalse (b # bs)"
| "transitionsToFalse bs = 0"




subsection \<open>A reference scenario\<close>

text \<open>
  One thread with the placeholder title, a running model, a user turn and an assistant
  turn that is still empty; the thread is waiting for its response.
\<close>

definition textPart :: "string \<Rightarrow> ThreadContent" where
  "textPart s = \<lparr>type_content = Text, text_content = \<lparr>value_cv = s, annotations = []\<rparr>\<rparr>"

definition demoThread :: Thread where
  "demoThread = \<lparr>id_thread = ''t1'', title = ''New Thread'', metadata = []\<rparr>"

definition demoModel :: Model where
  "demoModel = \<lparr>id_model = ''m1'', name_model = ''Model One'',
                 parameters = [(''stream'', PBool True), (''max_tokens'', PNum 2048)]\<rparr>"

definition userTurn :: ThreadMessage where
  "userTurn = \<lparr>id_message = ''u1'', thread_id = ''t1'', role = User, status = Ready,
                content = [textPart ''Hi''], type_message = Thread\<rparr>"

definition responseUpdate :: "string \<Rightarrow> string \<Rightarrow> MessageStatus \<Rightarrow> ThreadContent list \<Rightarrow> ThreadMessage" where
  "responseUpdate mid tid st c =
     \<lparr>id_message = mid, thread_id = tid, role = Assistant, status = st, content = c,
      type_message = Thread\<rparr>"

definition summaryResponse :: "MessageStatus \<Rightarrow> string \<Rightarrow> ThreadMessage" where
  "summaryResponse st s =
     \<lparr>id_message = ''s1'', thread_id = ''t1'', role = Assistant, status = st,
      content = [textPart s], type_message = Summary\<rparr>"

definition demoWorld :: World where
  "demoWorld =
     \<lparr>activeModel = Some demoModel,
      stateModel = \<lparr>state = ''stop'', loading = False, model = ''m1''\<rparr>,
      loadModelError = None,
      queuedMessage = False,
      threads = [demoThread],
      chatMessages = (\<lambda>_. [])(''t1'' := [userTurn, responseUpdate ''a1'' ''t1'' Pending []]),
      activeThreadId = Some ''t1'',
      waitingForResponse = (\<lambda>_. False)(''t1'' := True),
      isGeneratingResponse = True,
      effects = []\<rparr>"

text \<open>The same scenario with a padded placeholder title, and with a title already given.\<close>

definition paddedWorld :: World where
  "paddedWorld = demoWorld\<lparr>threads := [demoThread\<lparr>title := '' New Thread''\<rparr>]\<rparr>"

definition titledWorld :: World where
  "titledWorld = demoWorld\<lparr>threads := [demoThread\<lparr>title := ''Greeting exchange''\<rparr>]\<rparr>"

text \<open>
  Two completed Summary responses for the thread, one after the other, each handled on
  the snapshots mirrored from the world it arrives in.
\<close>

definition afterFirstSummary :: World where
  "afterFirstSummary =
     onMessageResponseUpdate (mirror demoWorld) ''01HZ'' (summaryResponse Ready ''First title'')
       demoWorld"

definition afterSecondSummary :: World where
  "afterSecondSummary =
     onMessageResponseUpdate (mirror afterFirstSummary) ''01HZ''
       (summaryResponse Ready ''Second title'') afterFirstSummary"


text \<open>The scenario with a second thread in the list.\<close>

definition otherThread :: Thread where
  "otherThread = \<lparr>id_thread = ''t2'', title = ''Other talk'',
                   metadata = [(''lastMessage'', ''See you'')]\<rparr>"

definition twoThreadWorld :: World where
  "twoThreadWorld = demoWorld\<lparr>threads := [demoThread, otherThread]\<rparr>"

text \<open>
  The assistant turn completes, which merges \<open>lastMessage\<close> into the stored thread; a
  completed Summary response is then handled before the snapshots are mirrored again, on
  the snapshots taken before the completion.
\<close>

definition afterTerminal :: World where
  "afterTerminal =
     onMessageResponseUpdate (mirror demoWorld) ''01HZ''
       (responseUpdate ''a1'' ''t1'' Ready [textPart ''Hello world'']) demoWorld"

definition afterStaleSummary :: World where
  "afterStaleSummary =
     onMessageResponseUpdate (mirror demoWorld) ''01J0''
       (summaryResponse Ready ''Greeting exchange'') afterTerminal"

section \<open>Properties\<close>

lemmas accessor_defs = setActiveModel_def setStateModel_def setLoadModelError_def
  setQueuedMessage_def updateThreadWaiting_def setIsGeneratingResponse_def addNewMessage_def
  updateMessage_def updateThread_def call_def

lemmas demo_defs = demoWorld_def demoThread_def demoModel_def userTurn_def responseUpdate_def
  summaryResponse_def textPart_def mirror_def getCurrentChatMessages_def

lemmas update_defs = onMessageResponseUpdate_def updateThreadMessage_def

subsection \<open>Auxiliary facts\<close>

lemma sentRequests_append: "sentRequests (xs @ ys) = sentRequests xs @ sentRequests ys"
  by (induction xs rule: sentRequests.induct) simp_all

lemma findThread_id: "findThread ts tid = Some th \<Longrightarrow> id_thread th = tid"
  by (auto simp: findThread_def find_Some_iff)

lemma findThread_map:
  assumes "\<And>c. id_thread (f c) = id_thread c"
  shows "findThread (map f ts) tid = map_option f (findThread ts tid)"
  using assms by (induction ts) (simp_all add: findThread_def)

lemma findThread_updateThread:
  "findThread (threads (updateThread t w)) tid =
     map_option (\<lambda>c. if id_thread c = id_thread t then t else c) (findThread (threads w) tid)"
  unfolding updateThread_def by (simp add: findThread_map)

lemma updateThread_ids: "map id_thread (threads (updateThread t w)) = map id_thread (threads w)"
  by (simp add: updateThread_def)

text \<open>A thread update keeps every record stored under another id.\<close>

lemma updateThread_others:
  "list_all2 (\<lambda>a b. id_thread b = id_thread a \<and> (id_thread a = id_thread t \<or> b = a))
     (threads w) (threads (updateThread t w))"
  by (simp add: updateThread_def list_all2_map2 list_all2_same)

lemma list_all2_refl_others:
  "list_all2 (\<lambda>a b. id_thread b = id_thread a \<and> (id_thread a = tid \<or> b = a)) ts ts"
  by (simp add: list_all2_same)

text \<open>The title update either does nothing or writes one thread and calls \<open>saveThread\<close>.\<close>

lemma updateThreadTitle_cases:
  "updateThreadTitle r m w = w \<or>
   (\<exists>th mc. status m \<noteq> Pending \<and> findThread (threadsRef r) (thread_id m) = Some th \<and>
      firstTextValue (content m) = Some mc \<and> mc \<noteq> [] \<and>
      updateThreadTitle r m w = call (SaveThread th) (updateThread (th\<lparr>title := mc\<rparr>) w))"
  by (simp add: updateThreadTitle_def split: option.splits)

text \<open>A summarization request is scheduled only through the open gate.\<close>

lemma request_only_through_gate:
  assumes "sentRequests (effects (onMessageResponseUpdate r u m w)) \<noteq> sentRequests (effects w)"
  shows "type_message m \<noteq> Summary \<and> status m \<noteq> Pending \<and> activeModelRef r \<noteq> None \<and>
         (\<exists>th. findThread (threadsRef r) (thread_id m) = Some th \<and> trim (title th) = ''New Thread'')"
  using assms
  by (auto simp add: update_defs updateThreadTitle_def generateThreadTitle_def accessor_defs
        Let_def sentRequests_append
        split: MessageRequestType.splits option.splits if_splits)

lemma chatMessages_update:
  "type_message m \<noteq> Summary \<Longrightarrow>
   chatMessages (onMessageResponseUpdate r u m w) =
     chatMessages (updateMessage (id_message m) (thread_id m) (content m) (status m) w)"
  by (simp add: update_defs generateThreadTitle_def accessor_defs Let_def
        split: MessageRequestType.splits option.splits)

lemma waiting_update:
  "type_message m \<noteq> Summary \<Longrightarrow>
   waitingForResponse (onMessageResponseUpdate r u m w) =
     (if status m = Pending \<and> content m = [] then waitingForResponse w
      else (waitingForResponse w)(thread_id m := False))"
  by (simp add: update_defs generateThreadTitle_def accessor_defs Let_def
        split: MessageRequestType.splits option.splits)

subsection \<open>Title update\<close>

text \<open>
  Claim C1, as stated: the title update fires only while the title is "New Thread", so of
  two consecutive completed Summary responses for one thread only the first changes the
  title. In the reference scenario the first response sets the title to "First title" and
  the second, arriving when the title is no longer the placeholder, sets it to
  "Second title": \<open>updateThreadTitle\<close> does not look at the current title.
\<close>

theorem C1_counterexample:
  "titleOf demoWorld ''t1'' = Some ''New Thread'' \<and>
   titleOf afterFirstSummary ''t1'' = Some ''First title'' \<and>
   titleOf afterSecondSummary ''t1'' = Some ''Second title''"
proof -
  have a: "afterFirstSummary =
      demoWorld\<lparr>threads := [demoThread\<lparr>title := ''First title''\<rparr>],
                effects := [SaveThread demoThread]\<rparr>"
    by (simp add: afterFirstSummary_def onMessageResponseUpdate_def updateThreadTitle_def
        findThread_def firstTextValue_def accessor_defs demo_defs)
  have b: "afterSecondSummary =
      demoWorld\<lparr>threads := [demoThread\<lparr>title := ''Second title''\<rparr>],
                effects := [SaveThread demoThread,
                            SaveThread (demoThread\<lparr>title := ''First title''\<rparr>)]\<rparr>"
    unfolding afterSecondSummary_def a
    by (simp add: onMessageResponseUpdate_def updateThreadTitle_def
        findThread_def firstTextValue_def accessor_defs demo_defs)
  show ?thesis
    unfolding a b by (simp add: titleOf_def findThread_def demoWorld_def demoThread_def)
qed

text \<open>
  Claim C1, amended. A completed Summary response whose thread is found, in the snapshot
  and in the store, and whose first content part has a non-empty text sets the stored
  title to that text whatever the title was. The "at most once" gate is on the trigger:
  when the new title, trimmed, is not "New Thread", the next \<open>message-response-updated\<close>
  event for that thread, handled on the refreshed snapshot, schedules no summarization
  request.
\<close>

theorem C1_update_ungated_trigger_gated:
  assumes "type_message m = Summary" and "status m \<noteq> Pending"
    and "findThread (threadsRef r) (thread_id m) = Some th"
    and "findThread (threads w) (thread_id m) \<noteq> None"
    and "firstTextValue (content m) = Some mc" and "mc \<noteq> []"
  shows "titleOf (onMessageResponseUpdate r u m w) (thread_id m) = Some mc \<and>
         (trim mc \<noteq> ''New Thread'' \<longrightarrow> thread_id m2 = thread_id m \<longrightarrow>
            sentRequests (effects (onMessageResponseUpdate
                (mirror (onMessageResponseUpdate r u m w)) u2 m2
                (onMessageResponseUpdate r u m w))) =
            sentRequests (effects (onMessageResponseUpdate r u m w)))"
proof -
  let ?w' = "onMessageResponseUpdate r u m w"
  have idth: "id_thread th = thread_id m"
    using assms(3) by (rule findThread_id)
  obtain c where c: "findThread (threads w) (thread_id m) = Some c"
    using assms(4) by blast
  then have idc: "id_thread c = thread_id m" by (rule findThread_id)
  have w': "?w' = call (SaveThread th) (updateThread (th\<lparr>title := mc\<rparr>) w)"
    using assms by (simp add: onMessageResponseUpdate_def updateThreadTitle_def)
  have found: "findThread (threads ?w') (thread_id m) = Some (th\<lparr>title := mc\<rparr>)"
    unfolding w' using c idc idth
    by (simp add: call_def findThread_updateThread)
  have first: "titleOf ?w' (thread_id m) = Some mc"
    using found by (simp add: titleOf_def)
  have second: "sentRequests (effects (onMessageResponseUpdate (mirror ?w') u2 m2 ?w')) =
            sentRequests (effects ?w')"
    if closed: "trim mc \<noteq> ''New Thread''" and same: "thread_id m2 = thread_id m"
  proof (rule ccontr)
    assume "\<not> ?thesis"
    then obtain th2 where th2: "findThread (threadsRef (mirror ?w')) (thread_id m2) = Some th2"
      "trim (title th2) = ''New Thread''"
      using request_only_through_gate [of "mirror ?w'" u2 m2 ?w'] by blast
    have "findThread (threadsRef (mirror ?w')) (thread_id m2) = Some (th\<lparr>title := mc\<rparr>)"
      using found same by (simp add: mirror_def)
    with th2(1) have "th2 = th\<lparr>title := mc\<rparr>"
      by simp
    then have "title th2 = mc"
      by simp
    with th2(2) closed show False
      by simp
  qed
  from first second show ?thesis by blast
qed

theorem C1_update_ungated_trigger_gated_witness:
  "type_message (summaryResponse Ready ''Second title'') = Summary \<and>
   status (summaryResponse Ready ''Second title'') \<noteq> Pending \<and>
   findThread (threadsRef (mirror titledWorld)) (thread_id (summaryResponse Ready ''Second title''))
     = Some (demoThread\<lparr>title := ''Greeting exchange''\<rparr>) \<and>
   findThread (threads titledWorld) (thread_id (summaryResponse Ready ''Second title'')) \<noteq> None \<and>
   firstTextValue (content (summaryResponse Ready ''Second title'')) = Some ''Second title'' \<and>
   ''Second title'' \<noteq> [] \<and>
   trim ''Second title'' \<noteq> ''New Thread'' \<and>
   thread_id (responseUpdate ''a1'' ''t1'' Ready [textPart ''Hello world'']) =
     thread_id (summaryResponse Ready ''Second title'') \<and>
   titleOf (onMessageResponseUpdate (mirror titledWorld) ''01HZ''
     (summaryResponse Ready ''Second title'') titledWorld)
     (thread_id (summaryResponse Ready ''Second title'')) = Some ''Second title'' \<and>
   sentRequests (effects (onMessageResponseUpdate
       (mirror (onMessageResponseUpdate (mirror titledWorld) ''01HZ''
          (summaryResponse Ready ''Second title'') titledWorld)) ''01J0''
       (responseUpdate ''a1'' ''t1'' Ready [textPart ''Hello world''])
       (onMessageResponseUpdate (mirror titledWorld) ''01HZ''
          (summaryResponse Ready ''Second title'') titledWorld))) =
     sentRequests (effects (onMessageResponseUpdate (mirror titledWorld) ''01HZ''
          (summaryResponse Ready ''Second title'') titledWorld))"
proof -
  have h1: "type_message (summaryResponse Ready ''Second title'') = Summary"
    and h2: "status (summaryResponse Ready ''Second title'') \<noteq> Pending"
    by (simp_all add: summaryResponse_def)
  have h3: "findThread (threadsRef (mirror titledWorld))
      (thread_id (summaryResponse Ready ''Second title''))
      = Some (demoThread\<lparr>title := ''Greeting exchange''\<rparr>)"
    by (simp add: titledWorld_def findThread_def demo_defs)
  have h4: "findThread (threads titledWorld) (thread_id (summaryResponse Ready ''Second title''))
      \<noteq> None"
    by (simp add: titledWorld_def findThread_def demo_defs)
  have h5: "firstTextValue (content (summaryResponse Ready ''Second title'')) = Some ''Second title''"
    by (simp add: firstTextValue_def summaryResponse_def textPart_def)
  have h6: "''Second title'' \<noteq> []"
    by simp
  have g1: "trim ''Second title'' \<noteq> ''New Thread''"
    by (simp add: trim_def isWhiteSpace_def)
  have g2: "thread_id (responseUpdate ''a1'' ''t1'' Ready [textPart ''Hello world'']) =
     thread_id (summaryResponse Ready ''Second title'')"
    by (simp add: responseUpdate_def summaryResponse_def)
  note main = C1_update_ungated_trigger_gated [OF h1 h2 h3 h4 h5 h6, where u = "''01HZ''"
      and ?u2.0 = "''01J0''"
      and ?m2.0 = "responseUpdate ''a1'' ''t1'' Ready [textPart ''Hello world'']"]
  show ?thesis
    using h1 h2 h3 h4 h5 h6 g1 g2 main by blast
qed

text \<open>
  Claim C2 says that the title update persists the thread carrying the new title. In the
  reference scenario a completed Summary response with the text "Greeting exchange"
  arrives for the thread "t1", whose title is "New Thread". The store then holds the new
  title, but the thread handed to \<open>saveThread\<close> is the snapshot's record spread unchanged
  (\<open>saveThread({...thread})\<close>): it still has the title "New Thread". The sibling handler
  \<open>updateThreadMessage\<close> passes the updated record to \<open>saveThread\<close>.
\<close>

theorem C2_saveThread_receives_old_title:
  "titleOf (onMessageResponseUpdate (mirror demoWorld) ''01HZ''
             (summaryResponse Ready ''Greeting exchange'') demoWorld) ''t1''
     = Some ''Greeting exchange'' \<and>
   map title (savedThreads (effects (onMessageResponseUpdate (mirror demoWorld) ''01HZ''
             (summaryResponse Ready ''Greeting exchange'') demoWorld)))
     = [''New Thread'']"
  by (simp add: onMessageResponseUpdate_def updateThreadTitle_def titleOf_def findThread_def
        firstTextValue_def accessor_defs demo_defs)

text \<open>
  Claim C10, as stated, has every Summary event leave the thread's metadata unchanged. The
  title update writes back the whole record of the snapshot with the new title. In the
  reference scenario the completed assistant turn has stored \<open>lastMessage\<close> in the thread's
  metadata; a completed Summary response handled on the snapshots taken before that
  completion stores the snapshot's empty metadata again.
\<close>

theorem C10_counterexample:
  "type_message (summaryResponse Ready ''Greeting exchange'') = Summary \<and>
   map_option metadata (findThread (threads afterTerminal) ''t1'') =
     Some [(''lastMessage'', ''Hello world'')] \<and>
   map_option metadata (findThread (threads afterStaleSummary) ''t1'') = Some []"
proof -
  have a: "threads afterTerminal = [demoThread\<lparr>metadata := [(''lastMessage'', ''Hello world'')]\<rparr>]"
    by (simp add: afterTerminal_def update_defs generateThreadTitle_def findThread_def
        firstTextValue_def spreadLastMessage_def trim_def isWhiteSpace_def accessor_defs
        demo_defs Let_def)
  have b: "threads afterStaleSummary = [demoThread\<lparr>title := ''Greeting exchange''\<rparr>]"
    unfolding afterStaleSummary_def
    by (simp add: onMessageResponseUpdate_def updateThreadTitle_def findThread_def
        firstTextValue_def updateThread_def call_def a demo_defs)
  show ?thesis
    unfolding a b by (simp add: findThread_def demoThread_def summaryResponse_def)
qed

text \<open>
  Claim C10, amended. A \<open>message-response-updated\<close> event of type Summary is handled by the
  title update alone. It leaves the message store, the per-thread waiting flags, the
  generating flag, the queued-message flag and the model cells as they were; it keeps the
  ids of the thread list and every record stored under an id other than the event's
  thread id. When the snapshot is the current thread list, the thread found under any id
  is the one found before up to its title, so its metadata is unchanged: the title of
  the event's thread is then the only thing that can change.
\<close>

theorem C10_summary_frame:
  assumes "type_message m = Summary"
  shows "onMessageResponseUpdate r u m w = updateThreadTitle r m w \<and>
         chatMessages (onMessageResponseUpdate r u m w) = chatMessages w \<and>
         waitingForResponse (onMessageResponseUpdate r u m w) = waitingForResponse w \<and>
         isGeneratingResponse (onMessageResponseUpdate r u m w) = isGeneratingResponse w \<and>
         queuedMessage (onMessageResponseUpdate r u m w) = queuedMessage w \<and>
         activeModel (onMessageResponseUpdate r u m w) = activeModel w \<and>
         stateModel (onMessageResponseUpdate r u m w) = stateModel w \<and>
         loadModelError (onMessageResponseUpdate r u m w) = loadModelError w \<and>
         activeThreadId (onMessageResponseUpdate r u m w) = activeThreadId w \<and>
         list_all2 (\<lambda>a b. id_thread b = id_thread a \<and> (id_thread a = thread_id m \<or> b = a))
           (threads w) (threads (onMessageResponseUpdate r u m w)) \<and>
         (threadsRef r = threads w \<longrightarrow>
            rel_option (\<lambda>a b. b = a\<lparr>title := title b\<rparr>)
              (findThread (threads w) tid)
              (findThread (threads (onMessageResponseUpdate r u m w)) tid) \<and>
            map_option metadata (findThread (threads (onMessageResponseUpdate r u m w)) tid) =
            map_option metadata (findThread (threads w) tid))"
proof -
  have route: "onMessageResponseUpdate r u m w = updateThreadTitle r m w"
    using assms by (simp add: onMessageResponseUpdate_def)
  consider (same) "updateThreadTitle r m w = w"
    | (upd) th mc where "findThread (threadsRef r) (thread_id m) = Some th"
        "updateThreadTitle r m w = call (SaveThread th) (updateThread (th\<lparr>title := mc\<rparr>) w)"
    using updateThreadTitle_cases [of r m w] by blast
  then show ?thesis
  proof cases
    case same
    have "rel_option (\<lambda>a b. b = a\<lparr>title := title b\<rparr>)
            (findThread (threads w) tid) (findThread (threads w) tid)"
      by (cases "findThread (threads w) tid") simp_all
    with route same show ?thesis
      by (simp add: list_all2_refl_others)
  next
    case upd
    let ?t = "th\<lparr>title := mc\<rparr>"
    have idth: "id_thread th = thread_id m"
      using upd(1) by (rule findThread_id)
    have others: "list_all2 (\<lambda>a b. id_thread b = id_thread a \<and> (id_thread a = thread_id m \<or> b = a))
           (threads w) (threads (updateThread ?t w))"
      using updateThread_others [of ?t w] idth by simp
    have rel: "rel_option (\<lambda>a b. b = a\<lparr>title := title b\<rparr>)
              (findThread (threads w) tid) (findThread (threads (updateThread ?t w)) tid)"
      if sync: "threadsRef r = threads w"
    proof (cases "findThread (threads w) tid")
      case None
      then show ?thesis by (simp add: findThread_updateThread)
    next
      case (Some c)
      have found: "findThread (threads w) (thread_id m) = Some th"
        using upd(1) sync by simp
      from Some have idc: "id_thread c = tid" by (rule findThread_id)
      show ?thesis
      proof (cases "tid = thread_id m")
        case True
        with Some found have "c = th" by simp
        with Some True idth show ?thesis
          by (simp add: findThread_updateThread)
      next
        case False
        with Some idc idth show ?thesis
          by (simp add: findThread_updateThread)
      qed
    qed
    have md: "map_option metadata (findThread (threads (updateThread ?t w)) tid) =
           map_option metadata (findThread (threads w) tid)"
      if sync: "threadsRef r = threads w"
    proof (cases "findThread (threads w) tid")
      case None
      then show ?thesis by (simp add: findThread_updateThread)
    next
      case (Some c)
      from rel [OF sync] Some obtain b where
        b: "findThread (threads (updateThread ?t w)) tid = Some b" "b = c\<lparr>title := title b\<rparr>"
        by (cases "findThread (threads (updateThread ?t w)) tid") simp_all
      have "metadata b = metadata c"
        by (subst b(2)) simp
      with Some b(1) show ?thesis by simp
    qed
    have fr: "threads (call (SaveThread th) (updateThread ?t w)) = threads (updateThread ?t w)"
      by (simp add: call_def)
    show ?thesis
      unfolding route upd(2) fr
      using md rel others
      by (simp add: accessor_defs)
  qed
qed


theorem C10_summary_frame_witness:
  "type_message (summaryResponse Ready ''Greeting exchange'') = Summary \<and>
   threadsRef (mirror twoThreadWorld) = threads twoThreadWorld \<and>
   threads twoThreadWorld = [demoThread, otherThread] \<and>
   threads (onMessageResponseUpdate (mirror twoThreadWorld) ''01HZ''
             (summaryResponse Ready ''Greeting exchange'') twoThreadWorld) =
     [demoThread\<lparr>title := ''Greeting exchange''\<rparr>, otherThread] \<and>
   list_all2 (\<lambda>a b. id_thread b = id_thread a \<and>
                (id_thread a = thread_id (summaryResponse Ready ''Greeting exchange'') \<or> b = a))
     (threads twoThreadWorld)
     (threads (onMessageResponseUpdate (mirror twoThreadWorld) ''01HZ''
             (summaryResponse Ready ''Greeting exchange'') twoThreadWorld)) \<and>
   map_option metadata (findThread (threads (onMessageResponseUpdate (mirror twoThreadWorld) ''01HZ''
             (summaryResponse Ready ''Greeting exchange'') twoThreadWorld)) ''t1'') = Some [] \<and>
   map_option metadata (findThread (threads (onMessageResponseUpdate (mirror twoThreadWorld) ''01HZ''
             (summaryResponse Ready ''Greeting exchange'') twoThreadWorld)) ''t2'') =
     Some [(''lastMessage'', ''See you'')] \<and>
   waitingForResponse (onMessageResponseUpdate (mirror twoThreadWorld) ''01HZ''
             (summaryResponse Ready ''Greeting exchange'') twoThreadWorld) ''t1'' \<and>
   isGeneratingResponse (onMessageResponseUpdate (mirror twoThreadWorld) ''01HZ''
             (summaryResponse Ready ''Greeting exchange'') twoThreadWorld) \<and>
   chatMessages (onMessageResponseUpdate (mirror twoThreadWorld) ''01HZ''
             (summaryResponse Ready ''Greeting exchange'') twoThreadWorld) ''t1'' =
     [userTurn, responseUpdate ''a1'' ''t1'' Pending []]"
proof -
  let ?w' = "onMessageResponseUpdate (mirror twoThreadWorld) ''01HZ''
               (summaryResponse Ready ''Greeting exchange'') twoThreadWorld"
  have s: "threadsRef (mirror twoThreadWorld) = threads twoThreadWorld"
    by (simp add: mirror_def)
  have k: "type_message (summaryResponse Ready ''Greeting exchange'') = Summary"
    by (simp add: summaryResponse_def)
  have t0: "threads twoThreadWorld = [demoThread, otherThread]"
    by (simp add: twoThreadWorld_def)
  have t1: "threads ?w' = [demoThread\<lparr>title := ''Greeting exchange''\<rparr>, otherThread]"
    by (simp add: onMessageResponseUpdate_def updateThreadTitle_def findThread_def
        firstTextValue_def accessor_defs twoThreadWorld_def otherThread_def demo_defs)
  note frame1 = C10_summary_frame [OF k, of "mirror twoThreadWorld" "''01HZ''" twoThreadWorld "''t1''"]
  note frame2 = C10_summary_frame [OF k, of "mirror twoThreadWorld" "''01HZ''" twoThreadWorld "''t2''"]
  have la: "list_all2 (\<lambda>a b. id_thread b = id_thread a \<and>
                (id_thread a = thread_id (summaryResponse Ready ''Greeting exchange'') \<or> b = a))
     (threads twoThreadWorld) (threads ?w')"
    using frame1 by blast
  have md1: "map_option metadata (findThread (threads ?w') ''t1'') =
            map_option metadata (findThread (threads twoThreadWorld) ''t1'')"
    using frame1 s by blast
  have md2: "map_option metadata (findThread (threads ?w') ''t2'') =
            map_option metadata (findThread (threads twoThreadWorld) ''t2'')"
    using frame2 s by blast
  have wt: "waitingForResponse ?w' = waitingForResponse twoThreadWorld"
    using frame1 by blast
  have gn: "isGeneratingResponse ?w' = isGeneratingResponse twoThreadWorld"
    using frame1 by blast
  have cm: "chatMessages ?w' = chatMessages twoThreadWorld"
    using frame1 by blast
  have v1: "map_option metadata (findThread (threads twoThreadWorld) ''t1'') = Some []"
    and v1': "map_option metadata (findThread (threads twoThreadWorld) ''t2'') =
      Some [(''lastMessage'', ''See you'')]"
    by (simp_all add: twoThreadWorld_def findThread_def demoThread_def otherThread_def)
  have v2: "waitingForResponse twoThreadWorld ''t1''" and v3: "isGeneratingResponse twoThreadWorld"
    and v4: "chatMessages twoThreadWorld ''t1'' = [userTurn, responseUpdate ''a1'' ''t1'' Pending []]"
    by (simp_all add: twoThreadWorld_def demoWorld_def)
  show ?thesis
    unfolding md1 md2 wt gn cm using s k t0 t1 la v1 v1' v2 v3 v4 by blast
qed

subsection \<open>Title-generation trigger\<close>





text \<open>
  Claim C8, as stated, promises no request whenever the thread's title is not the
  placeholder. The gate compares the trimmed title: for the title " New Thread" (with a
  leading blank), which is not the placeholder, a completed message with an active model
  set schedules one request.
\<close>

theorem C8_counterexample:
  "title (demoThread\<lparr>title := '' New Thread''\<rparr>) \<noteq> ''New Thread'' \<and>
   findThread (threadsRef (mirror paddedWorld)) ''t1'' =
     Some (demoThread\<lparr>title := '' New Thread''\<rparr>) \<and>
   sentRequests (effects paddedWorld) = [] \<and>
   length (sentRequests (effects (onMessageResponseUpdate (mirror paddedWorld) ''01HZ''
      (responseUpdate ''a1'' ''t1'' Ready [textPart ''Hello world'']) paddedWorld))) = 1"
  by (simp add: update_defs generateThreadTitle_def paddedWorld_def findThread_def
        firstTextValue_def spreadLastMessage_def trim_def isWhiteSpace_def accessor_defs
        demo_defs Let_def)

text \<open>
  Claim C8, amended. For a completed message that is not a Summary and whose thread is
  found in the snapshot: when the thread's title with white space trimmed from both ends
  is not "New Thread", or no active model is set, the handler makes the two persistence
  calls and schedules no \<open>message-send-requested\<close> emission.
\<close>

theorem C8_no_request_outside_gate:
  assumes "type_message m \<noteq> Summary" and "status m \<noteq> Pending"
    and "findThread (threadsRef r) (thread_id m) = Some th"
    and "trim (title th) \<noteq> ''New Thread'' \<or> activeModelRef r = None"
  shows "effects (onMessageResponseUpdate r u m w) =
           effects w @
           [SaveThread (th\<lparr>metadata := spreadLastMessage (firstTextValue (content m)) (metadata th)\<rparr>),
            AddNewMessage m] \<and>
         sentRequests (effects (onMessageResponseUpdate r u m w)) = sentRequests (effects w)"
  using assms
  by (auto simp add: update_defs generateThreadTitle_def accessor_defs Let_def sentRequests_append
        split: MessageRequestType.splits)

theorem C8_no_request_outside_gate_witness:
  "type_message (responseUpdate ''a1'' ''t1'' Ready [textPart ''Hello world'']) \<noteq> Summary \<and>
   status (responseUpdate ''a1'' ''t1'' Ready [textPart ''Hello world'']) \<noteq> Pending \<and>
   findThread (threadsRef (mirror titledWorld)) ''t1'' =
     Some (demoThread\<lparr>title := ''Greeting exchange''\<rparr>) \<and>
   trim (title (demoThread\<lparr>title := ''Greeting exchange''\<rparr>)) \<noteq> ''New Thread'' \<and>
   sentRequests (effects (onMessageResponseUpdate (mirror titledWorld) ''01HZ''
      (responseUpdate ''a1'' ''t1'' Ready [textPart ''Hello world'']) titledWorld)) = [] \<and>
   findThread (threadsRef ((mirror demoWorld)\<lparr>activeModelRef := None\<rparr>)) ''t1'' = Some demoThread \<and>
   activeModelRef ((mirror demoWorld)\<lparr>activeModelRef := None\<rparr>) = None \<and>
   sentRequests (effects (onMessageResponseUpdate ((mirror demoWorld)\<lparr>activeModelRef := None\<rparr>)
      ''01HZ'' (responseUpdate ''a1'' ''t1'' Ready [textPart ''Hello world'']) demoWorld)) = []"
proof -
  have a: "type_message (responseUpdate ''a1'' ''t1'' Ready [textPart ''Hello world'']) \<noteq> Summary"
    and b: "status (responseUpdate ''a1'' ''t1'' Ready [textPart ''Hello world'']) \<noteq> Pending"
    and i: "thread_id (responseUpdate ''a1'' ''t1'' Ready [textPart ''Hello world'']) = ''t1''"
    by (simp_all add: responseUpdate_def)
  have f1: "findThread (threadsRef (mirror titledWorld)) ''t1'' =
      Some (demoThread\<lparr>title := ''Greeting exchange''\<rparr>)"
    by (simp add: titledWorld_def findThread_def demo_defs)
  have g1: "trim (title (demoThread\<lparr>title := ''Greeting exchange''\<rparr>)) \<noteq> ''New Thread''"
    by (simp add: trim_def isWhiteSpace_def)
  have f2: "findThread (threadsRef ((mirror demoWorld)\<lparr>activeModelRef := None\<rparr>)) ''t1'' =
      Some demoThread"
    by (simp add: findThread_def demo_defs)
  have g2: "activeModelRef ((mirror demoWorld)\<lparr>activeModelRef := None\<rparr>) = None"
    by simp
  have f1': "findThread (threadsRef (mirror titledWorld))
      (thread_id (responseUpdate ''a1'' ''t1'' Ready [textPart ''Hello world''])) =
      Some (demoThread\<lparr>title := ''Greeting exchange''\<rparr>)"
    using f1 i by simp
  have f2': "findThread (threadsRef ((mirror demoWorld)\<lparr>activeModelRef := None\<rparr>))
      (thread_id (responseUpdate ''a1'' ''t1'' Ready [textPart ''Hello world''])) = Some demoThread"
    using f2 i by simp
  note r1 = C8_no_request_outside_gate [OF a b f1' disjI1 [OF g1], where u = "''01HZ''"
      and w = titledWorld, THEN conjunct2]
  note r2 = C8_no_request_outside_gate [OF a b f2' disjI2 [OF g2], where u = "''01HZ''"
      and w = demoWorld, THEN conjunct2]
  have e1: "sentRequests (effects titledWorld) = []" and e2: "sentRequests (effects demoWorld) = []"
    by (simp_all add: titledWorld_def demoWorld_def)
  show ?thesis
    using a b f1 g1 f2 g2 r1 r2 by (simp only: e1 e2 simp_thms)
qed

subsection \<open>Message updates\<close>

text \<open>
  Claim C4. For a \<open>message-response-updated\<close> event that is not a Summary and has the
  status Pending, the message store holds what \<open>updateMessage\<close> writes for the event; the
  waiting flags and the generating flag are unchanged when the content is empty, and
  otherwise the waiting flag of the event's thread and the generating flag are cleared;
  the thread list, the log of outbound calls and every other cell are unchanged.
\<close>

theorem C4_pending_update:
  assumes "type_message m \<noteq> Summary" and "status m = Pending"
  shows "chatMessages (onMessageResponseUpdate r u m w) =
           chatMessages (updateMessage (id_message m) (thread_id m) (content m) (status m) w) \<and>
         waitingForResponse (onMessageResponseUpdate r u m w) =
           (if content m = [] then waitingForResponse w
            else (waitingForResponse w)(thread_id m := False)) \<and>
         isGeneratingResponse (onMessageResponseUpdate r u m w) =
           (if content m = [] then isGeneratingResponse w else False) \<and>
         threads (onMessageResponseUpdate r u m w) = threads w \<and>
         effects (onMessageResponseUpdate r u m w) = effects w \<and>
         activeModel (onMessageResponseUpdate r u m w) = activeModel w \<and>
         stateModel (onMessageResponseUpdate r u m w) = stateModel w \<and>
         loadModelError (onMessageResponseUpdate r u m w) = loadModelError w \<and>
         queuedMessage (onMessageResponseUpdate r u m w) = queuedMessage w \<and>
         activeThreadId (onMessageResponseUpdate r u m w) = activeThreadId w"
  using assms
  by (cases "content m = []")
     (simp_all add: update_defs accessor_defs Let_def split: MessageRequestType.splits)

theorem C4_pending_update_witness:
  "type_message (responseUpdate ''a1'' ''t1'' Pending []) \<noteq> Summary \<and>
   status (responseUpdate ''a1'' ''t1'' Pending []) = Pending \<and>
   type_message (responseUpdate ''a1'' ''t1'' Pending [textPart ''He'']) \<noteq> Summary \<and>
   status (responseUpdate ''a1'' ''t1'' Pending [textPart ''He'']) = Pending \<and>
   waitingForResponse demoWorld ''t1'' \<and> isGeneratingResponse demoWorld \<and>
   waitingForResponse
     (onMessageResponseUpdate (mirror demoWorld) ''01HZ''
        (responseUpdate ''a1'' ''t1'' Pending []) demoWorld) ''t1'' \<and>
   isGeneratingResponse
     (onMessageResponseUpdate (mirror demoWorld) ''01HZ''
        (responseUpdate ''a1'' ''t1'' Pending []) demoWorld) \<and>
   \<not> waitingForResponse
     (onMessageResponseUpdate (mirror demoWorld) ''01HZ''
        (responseUpdate ''a1'' ''t1'' Pending [textPart ''He'']) demoWorld) ''t1'' \<and>
   \<not> isGeneratingResponse
     (onMessageResponseUpdate (mirror demoWorld) ''01HZ''
        (responseUpdate ''a1'' ''t1'' Pending [textPart ''He'']) demoWorld) \<and>
   chatMessages
     (onMessageResponseUpdate (mirror demoWorld) ''01HZ''
        (responseUpdate ''a1'' ''t1'' Pending [textPart ''He'']) demoWorld) ''t1'' =
     [userTurn, responseUpdate ''a1'' ''t1'' Pending [textPart ''He'']] \<and>
   effects
     (onMessageResponseUpdate (mirror demoWorld) ''01HZ''
        (responseUpdate ''a1'' ''t1'' Pending [textPart ''He'']) demoWorld) = []"
  using C4_pending_update
      [of "responseUpdate ''a1'' ''t1'' Pending []" "mirror demoWorld" "''01HZ''" demoWorld]
    C4_pending_update
      [of "responseUpdate ''a1'' ''t1'' Pending [textPart ''He'']" "mirror demoWorld" "''01HZ''"
          demoWorld]
  by (simp add: responseUpdate_def demoWorld_def userTurn_def updateMessage_def)

text \<open>
  Claim C5. For every \<open>message-response-updated\<close> event whose type is not Summary and
  whose status is terminal (not Pending), after the handler the waiting flag of the
  event's thread and the global generating flag are false, whatever they were before.
\<close>

theorem C5_terminal_clears_flags:
  assumes "type_message m \<noteq> Summary" and "status m \<noteq> Pending"
  shows "waitingForResponse (onMessageResponseUpdate r u m w) (thread_id m) = False \<and>
         isGeneratingResponse (onMessageResponseUpdate r u m w) = False"
  using assms
  by (simp add: update_defs generateThreadTitle_def accessor_defs Let_def
        split: option.splits MessageRequestType.splits)

theorem C5_terminal_clears_flags_witness:
  "type_message (responseUpdate ''a1'' ''t1'' Ready [textPart ''Hello world'']) \<noteq> Summary \<and>
   status (responseUpdate ''a1'' ''t1'' Ready [textPart ''Hello world'']) \<noteq> Pending \<and>
   waitingForResponse demoWorld ''t1'' = True \<and>
   isGeneratingResponse demoWorld = True \<and>
   waitingForResponse
     (onMessageResponseUpdate (mirror demoWorld) ''01HZ''
        (responseUpdate ''a1'' ''t1'' Ready [textPart ''Hello world'']) demoWorld) ''t1'' = False \<and>
   isGeneratingResponse
     (onMessageResponseUpdate (mirror demoWorld) ''01HZ''
        (responseUpdate ''a1'' ''t1'' Ready [textPart ''Hello world'']) demoWorld) = False"
  using C5_terminal_clears_flags
    [of "responseUpdate ''a1'' ''t1'' Ready [textPart ''Hello world'']" "mirror demoWorld"
        "''01HZ''" demoWorld]
  by (simp add: responseUpdate_def demoWorld_def)

text \<open>
  Claim C6. Feed, for one message id of a thread, a Pending update with the content "He",
  a Pending update with "Hello" and a Ready update with "Hello world", each on whatever
  snapshots its handler sees. If the thread was waiting for its response and the message
  is in the thread's stored list, then the waiting flag goes from true to false exactly
  once in the four observed values, at the first update, and every stored message with
  that id (there is one) ends with the content "Hello world" and the status Ready.
\<close>

theorem C6_streaming_round_trip:
  assumes "waitingForResponse w tid" and "\<exists>x \<in> set (chatMessages w tid). id_message x = mid"
  shows "\<exists>w1 w2 w3.
           feed [(r1, u1, responseUpdate mid tid Pending [textPart ''He'']),
                 (r2, u2, responseUpdate mid tid Pending [textPart ''Hello'']),
                 (r3, u3, responseUpdate mid tid Ready [textPart ''Hello world''])] w
             = [w1, w2, w3] \<and>
           transitionsToFalse [waitingForResponse w tid, waitingForResponse w1 tid,
                               waitingForResponse w2 tid, waitingForResponse w3 tid] = 1 \<and>
           \<not> waitingForResponse w1 tid \<and>
           (\<exists>x \<in> set (chatMessages w3 tid). id_message x = mid) \<and>
           (\<forall>x \<in> set (chatMessages w3 tid). id_message x = mid \<longrightarrow>
              content x = [textPart ''Hello world''] \<and> status x = Ready)"
proof -
  let ?m1 = "responseUpdate mid tid Pending [textPart ''He'']"
  let ?m2 = "responseUpdate mid tid Pending [textPart ''Hello'']"
  let ?m3 = "responseUpdate mid tid Ready [textPart ''Hello world'']"
  let ?w1 = "onMessageResponseUpdate r1 u1 ?m1 w"
  let ?w2 = "onMessageResponseUpdate r2 u2 ?m2 ?w1"
  let ?w3 = "onMessageResponseUpdate r3 u3 ?m3 ?w2"
  have ty: "type_message ?m1 \<noteq> Summary" "type_message ?m2 \<noteq> Summary"
    "type_message ?m3 \<noteq> Summary"
    by (simp_all add: responseUpdate_def)
  have f1: "\<not> waitingForResponse ?w1 tid"
    by (simp add: waiting_update [OF ty(1)]) (simp add: responseUpdate_def)
  have f2: "\<not> waitingForResponse ?w2 tid"
    by (simp add: waiting_update [OF ty(2)]) (simp add: responseUpdate_def)
  have f3: "\<not> waitingForResponse ?w3 tid"
    by (simp add: waiting_update [OF ty(3)]) (simp add: responseUpdate_def)
  have cm: "chatMessages ?w3 tid =
      map (\<lambda>x. if id_message x = mid
                then x\<lparr>content := [textPart ''Hello world''], status := Ready\<rparr> else x)
        (chatMessages w tid)"
    unfolding chatMessages_update [OF ty(3)]
    apply (simp add: updateMessage_def)
    unfolding chatMessages_update [OF ty(2)]
    apply (simp add: updateMessage_def)
    unfolding chatMessages_update [OF ty(1)]
    apply (simp add: updateMessage_def responseUpdate_def)
    done
  have ex: "\<exists>x \<in> set (chatMessages ?w3 tid). id_message x = mid"
  proof -
    from assms(2) obtain x where x: "x \<in> set (chatMessages w tid)" "id_message x = mid"
      by blast
    let ?y = "x\<lparr>content := [textPart ''Hello world''], status := Ready\<rparr>"
    have "?y \<in> set (chatMessages ?w3 tid)"
      unfolding cm set_map using x(2) by (intro image_eqI [of _ _ x]) (simp_all add: x(1))
    moreover have "id_message ?y = mid"
      using x(2) by simp
    ultimately show ?thesis by blast
  qed
  have all: "\<forall>x \<in> set (chatMessages ?w3 tid). id_message x = mid \<longrightarrow>
              content x = [textPart ''Hello world''] \<and> status x = Ready"
  proof
    fix y assume "y \<in> set (chatMessages ?w3 tid)"
    then obtain x where y: "y = (if id_message x = mid
        then x\<lparr>content := [textPart ''Hello world''], status := Ready\<rparr> else x)"
      unfolding cm set_map by blast
    show "id_message y = mid \<longrightarrow> content y = [textPart ''Hello world''] \<and> status y = Ready"
      unfolding y by (cases "id_message x = mid") simp_all
  qed
  have tr: "transitionsToFalse [waitingForResponse w tid, waitingForResponse ?w1 tid,
              waitingForResponse ?w2 tid, waitingForResponse ?w3 tid] = 1"
    using assms(1) f1 f2 f3 by simp
  have fd: "feed [(r1, u1, ?m1), (r2, u2, ?m2), (r3, u3, ?m3)] w = [?w1, ?w2, ?w3]"
    by simp
  from fd tr f1 ex all show ?thesis by blast
qed

theorem C6_streaming_round_trip_witness:
  "waitingForResponse demoWorld ''t1'' \<and>
   (\<exists>x \<in> set (chatMessages demoWorld ''t1''). id_message x = ''a1'') \<and>
   (\<exists>w1 w2 w3.
      feed [(mirror demoWorld, ''01HX'', responseUpdate ''a1'' ''t1'' Pending [textPart ''He'']),
            (mirror demoWorld, ''01HY'', responseUpdate ''a1'' ''t1'' Pending [textPart ''Hello'']),
            (mirror demoWorld, ''01HZ'', responseUpdate ''a1'' ''t1'' Ready [textPart ''Hello world''])]
        demoWorld = [w1, w2, w3] \<and>
      transitionsToFalse [waitingForResponse demoWorld ''t1'', waitingForResponse w1 ''t1'',
                          waitingForResponse w2 ''t1'', waitingForResponse w3 ''t1''] = 1 \<and>
      \<not> waitingForResponse w1 ''t1'' \<and>
      (\<exists>x \<in> set (chatMessages w3 ''t1''). id_message x = ''a1'') \<and>
      (\<forall>x \<in> set (chatMessages w3 ''t1''). id_message x = ''a1'' \<longrightarrow>
         content x = [textPart ''Hello world''] \<and> status x = Ready))"
proof -
  have h1: "waitingForResponse demoWorld ''t1''"
    by (simp add: demoWorld_def)
  have h2: "\<exists>x \<in> set (chatMessages demoWorld ''t1''). id_message x = ''a1''"
    by (simp add: demoWorld_def responseUpdate_def)
  show ?thesis
    using h1 h2
      C6_streaming_round_trip [OF h1 h2, of "mirror demoWorld" "''01HX''" "mirror demoWorld"
        "''01HY''" "mirror demoWorld" "''01HZ''"]
    by blast
qed

text \<open>
  Claim C7. For a completed message that is not a Summary and whose thread id is not found
  in the snapshot, the message store still holds what \<open>updateMessage\<close> writes for the
  event, while the thread list is unchanged (no metadata merge) and no outbound call is
  made: no \<open>saveThread\<close>, no message append, no timer for a summarization request.
\<close>

theorem C7_thread_not_found:
  assumes "type_message m \<noteq> Summary" and "status m \<noteq> Pending"
    and "findThread (threadsRef r) (thread_id m) = None"
  shows "chatMessages (onMessageResponseUpdate r u m w) =
           chatMessages (updateMessage (id_message m) (thread_id m) (content m) (status m) w) \<and>
         threads (onMessageResponseUpdate r u m w) = threads w \<and>
         effects (onMessageResponseUpdate r u m w) = effects w"
  using assms
  by (simp add: update_defs accessor_defs Let_def split: MessageRequestType.splits)

theorem C7_thread_not_found_witness:
  "type_message (responseUpdate ''a1'' ''t9'' Ready [textPart ''Lost'']) \<noteq> Summary \<and>
   status (responseUpdate ''a1'' ''t9'' Ready [textPart ''Lost'']) \<noteq> Pending \<and>
   findThread (threadsRef (mirror demoWorld))
     (thread_id (responseUpdate ''a1'' ''t9'' Ready [textPart ''Lost''])) = None \<and>
   threads
     (onMessageResponseUpdate (mirror demoWorld) ''01HZ''
        (responseUpdate ''a1'' ''t9'' Ready [textPart ''Lost'']) demoWorld) = [demoThread] \<and>
   effects
     (onMessageResponseUpdate (mirror demoWorld) ''01HZ''
        (responseUpdate ''a1'' ''t9'' Ready [textPart ''Lost'']) demoWorld) = []"
proof -
  have h: "findThread (threadsRef (mirror demoWorld))
     (thread_id (responseUpdate ''a1'' ''t9'' Ready [textPart ''Lost''])) = None"
    by (simp add: findThread_def demo_defs)
  show ?thesis
    using h C7_thread_not_found
      [of "responseUpdate ''a1'' ''t9'' Ready [textPart ''Lost'']" "mirror demoWorld" "''01HZ''"
          demoWorld]
    by (simp add: responseUpdate_def demoWorld_def)
qed

subsection \<open>Model lifecycle\<close>

text \<open>
  Claim C9. When \<open>model-load-failed\<close> is followed immediately by \<open>model-ready\<close>, for any
  failure payload and any ready model (in particular one with a different id), the active
  model is the ready model and the model load status is
  \<open>{state: stop, loading: false, model: id of the ready model}\<close>: the last write wins. The
  error text recorded by the failure stays in its own cell and is not applied again to
  the model state.
\<close>

theorem C9_fail_then_ready:
  "activeModel (onModelReady m (onModelInitFailed res w)) = Some m \<and>
   stateModel (onModelReady m (onModelInitFailed res w)) =
     \<lparr>state = ''stop'', loading = False, model = id_model m\<rparr> \<and>
   loadModelError (onModelReady m (onModelInitFailed res w)) = Some (error res)"
  by (simp add: onModelReady_def onModelInitFailed_def accessor_defs Let_def)

end
